theory Spec2Isabelle
  imports Complex_Main "HOL-Library.Word"
begin

text \<open>
  The encoder of \<open>src/server/video-encoder.js\<close>: one object per connection that
  takes frames from a client, writes them to disk and, on \<open>end\<close>, drives a chain
  of external tools that turns them into a video. The encoder is modelled as a state
  and its handlers as functions on the state; the client, the file system and the
  external tools appear as events.
\<close>

section \<open>JavaScript values\<close>

text \<open>
  A JavaScript string is a sequence of UTF-16 code units: \<open>substr\<close>, \<open>length\<close> and a
  regular expression without the \<open>u\<close> flag all count code units. \<open>js\<close> embeds a
  literal of the source.
\<close>

type_synonym jsstring = "16 word list"

definition js :: "string \<Rightarrow> jsstring" where
  "js s = map of_char s"

text \<open>String conversion of a non-negative integer, as in \<open>name + "-" + frameNum\<close>.\<close>

fun digits :: "nat \<Rightarrow> jsstring" where
  "digits n =
     (if n < 10 then [of_nat (48 + n)] else digits (n div 10) @ [of_nat (48 + n mod 10)])"

declare digits.simps [simp del]

text \<open>String conversion of a variable that may be \<open>undefined\<close>, as in \<open>name + '.mp4'\<close>.\<close>

definition nameStr :: "jsstring option \<Rightarrow> jsstring" where
  "nameStr n = (case n of None \<Rightarrow> js ''undefined'' | Some s \<Rightarrow> s)"

text \<open>\<open>x || d\<close> on an optional string: \<open>undefined\<close> and the empty string are falsy.\<close>

definition or_str :: "jsstring option \<Rightarrow> jsstring \<Rightarrow> jsstring" where
  "or_str x d = (case x of None \<Rightarrow> d | Some s \<Rightarrow> if s = [] then d else s)"

text \<open>\<open>x || d\<close> on an optional number: \<open>undefined\<close> and \<open>0\<close> are falsy.\<close>

definition or_num :: "int option \<Rightarrow> int \<Rightarrow> int" where
  "or_num x d = (case x of None \<Rightarrow> d | Some n \<Rightarrow> if n = 0 then d else n)"

text \<open>
  The quotient of two non-negative integers as a JavaScript number. Division by zero
  does not raise: it gives \<open>NaN\<close> for \<open>0 / 0\<close> and \<open>Infinity\<close> otherwise. A finite
  quotient is kept exact (rounding to a double is monotone and 0 and 1 are doubles, so
  it does not move a value across the bounds of the unit interval).
\<close>

datatype jsnum = Finite rat | Infinity | NaN

definition js_div :: "nat \<Rightarrow> nat \<Rightarrow> jsnum" where
  "js_div a b =
     (if b = 0 then (if a = 0 then NaN else Infinity) else Finite (of_nat a / of_nat b))"

fun in_unit_interval :: "jsnum \<Rightarrow> bool" where
  "in_unit_interval (Finite q) = (0 \<le> q \<and> q \<le> 1)"
| "in_unit_interval Infinity = False"
| "in_unit_interval NaN = False"

text \<open>
  \<open>path.join(dir, file)\<close> for a normalised directory and a file name without a
  separator (a sanitized name never holds one).
\<close>

definition path_join :: "jsstring \<Rightarrow> jsstring \<Rightarrow> jsstring" where
  "path_join d f = d @ js ''/'' @ f"

text \<open>
  \<open>toUpperCase\<close> on the letters of Basic Latin; other code units are left as they
  are (the overlay text is only passed on to the last stage's filter).
\<close>

definition toUpperCase :: "jsstring \<Rightarrow> jsstring" where
  "toUpperCase s = map (\<lambda>c. if 0x61 \<le> c \<and> c \<le> 0x7A then c - 0x20 else c) s"

text \<open>\<open>Array.prototype.indexOf\<close>: the first index of the element, or \<open>-1\<close>.\<close>

fun indexOf :: "'a list \<Rightarrow> 'a \<Rightarrow> int" where
  "indexOf [] x = - 1"
| "indexOf (y # ys) x =
     (if y = x then 0 else (let i = indexOf ys x in if i < 0 then - 1 else i + 1))"

text \<open>
  \<open>xs.splice(ndx, 1)\<close>: a negative start counts from the end of the array, so
  \<open>splice(-1, 1)\<close> removes the last element.
\<close>

definition splice1 :: "int \<Rightarrow> 'a list \<Rightarrow> 'a list" where
  "splice1 ndx xs =
     (let len = int (length xs);
          start = (if ndx < 0 then max (len + ndx) 0 else min ndx len)
      in take (nat start) xs @ drop (nat start + 1) xs)"

section \<open>The sanitizer\<close>

text \<open>The character class \<open>[0-9a-zA-Z-.]\<close> of \<open>safeName\<close>, on code units.\<close>

definition allowed :: "16 word \<Rightarrow> bool" where
  "allowed c \<longleftrightarrow>
     (0x30 \<le> c \<and> c \<le> 0x39) \<or> (0x61 \<le> c \<and> c \<le> 0x7A) \<or> (0x41 \<le> c \<and> c \<le> 0x5A)
     \<or> c = 0x2D \<or> c = 0x2E"

definition underscore :: "16 word" where
  "underscore = 0x5F"

text \<open>\<open>name.substr(0, 30).replace(/[^0-9a-zA-Z-.]/g, '_')\<close>\<close>

definition safeName :: "jsstring \<Rightarrow> jsstring" where
  "safeName n = map (\<lambda>c. if allowed c then c else underscore) (take 30 n)"

section \<open>The encoder of one connection\<close>

record options =
  videoDir :: jsstring
  frameDir :: jsstring
  keepFrames :: bool
  allowArbitraryFfmpegArguments :: bool

text \<open>The payload of a \<open>start\<close> message; every field may be missing.\<close>

record start_data =
  d_name :: "jsstring option"
  d_framerate :: "int option"
  d_extension :: "jsstring option"
  d_codec :: "jsstring option"
  d_ffmpegArguments :: "jsstring list option"

definition no_data :: start_data where
  "no_data = \<lparr>d_name = None, d_framerate = None, d_extension = None, d_codec = None,
     d_ffmpegArguments = None\<rparr>"

text \<open>What \<open>sendCmd\<close> sends to the client: the command and its data.\<close>

datatype out =
    CmdStart
  | CmdErrorText jsstring
  | CmdErrorMsg jsstring
  | CmdErrorResult jsstring
  | CmdFrame nat
  | CmdProgress jsnum
  | CmdEnd jsstring

text \<open>
  An argument of an external tool. The \<open>drawtext\<close> filter expressions of the last
  stage are kept as their parameters: the overlay text and the \<open>nearEnd\<close> entry of
  the declared video length.
\<close>

datatype arg = S jsstring | N int | OverlayFilter jsstring "nat option"

text \<open>
  The external processes of the pipeline, one constructor per stage. \<open>Encode\<close> and
  \<open>Overlay\<close> are \<open>FFMpegRunner\<close> objects (events \<open>frame\<close>, \<open>done\<close>, \<open>error\<close>);
  \<open>Remux\<close> (\<open>mp4fpsmod\<close>) and \<open>Mux\<close> (\<open>ffmpeg\<close>) are child processes of which only
  the \<open>close\<close> event is listened to. \<open>Encode\<close> keeps the \<open>videoname\<close> that its
  \<open>done\<close> handler has captured.
\<close>

datatype proc =
    Encode jsstring "arg list"
  | Remux "arg list"
  | Mux "arg list"
  | Overlay "arg list"

datatype wstatus = Pending | Written | Failed

text \<open>
  The state: the constructor's parameters, the variables of the closure, the
  module-level registry \<open>encoders\<close>, and what the encoder has handed to its
  collaborators: the messages the client has taken (\<open>outbox\<close>), whether
  \<open>client.send\<close> throws, the files written through \<open>fs\<close>, the frame writes
  (file name, frame number, status) and the other writes in the order they were
  issued, the processes started (with whether they still run), and the
  \<open>server.addFile\<close> promises (with whether they are still pending).
\<close>

record world =
  ident :: jsstring
  self :: nat
  opts :: options
  count :: nat
  name :: "jsstring option"
  frames :: "jsstring list"
  numWriting :: int
  numErrors :: nat
  ended :: bool
  framerate :: int
  extension :: jsstring
  codec :: "jsstring option"
  connected :: bool
  ffmpegArguments :: "jsstring list option"
  textoverlay :: jsstring
  videoLength :: int
  encoders :: "nat list"
  sendThrows :: bool
  clientClosed :: bool
  outbox :: "out list"
  files :: "jsstring set"
  writes :: "(jsstring \<times> nat \<times> wstatus) list"
  auxWrites :: "(jsstring \<times> wstatus) list"
  procs :: "(proc \<times> bool) list"
  addFiles :: "(jsstring \<times> bool) list"

text \<open>
  Modelled from the spec: \<open>utils.deleteNoFail\<close> of \<open>lib/utils\<close>, which is not among
  the sources. Deletion is best-effort: the file is gone afterwards, and nothing is
  raised when it was already absent.
\<close>

definition deleteNoFail :: "jsstring \<Rightarrow> world \<Rightarrow> world" where
  "deleteNoFail p w = w\<lparr>files := files w - {p}\<rparr>"

definition cleanup :: "world \<Rightarrow> world" where
  "cleanup w =
     (let w1 = (if frames w \<noteq> [] \<and> \<not> keepFrames (opts w)
                then (fold deleteNoFail (frames w) w)\<lparr>frames := []\<rparr> else w);
          d = videoDir (opts w1);
          n = nameStr (name w1)
      in fold deleteNoFail
           [path_join d (js ''ts-'' @ n @ js ''.txt''),
            path_join d (js ''vfr-'' @ n @ js ''.mp4''),
            path_join d (js ''cfr-'' @ n @ js ''.mp4''),
            path_join d (n @ js ''.mp3''),
            path_join d (n @ js ''.mp4'')] w1)"

definition disconnect :: "world \<Rightarrow> world" where
  "disconnect w =
     (let w1 = w\<lparr>connected := False\<rparr>;
          ndx = indexOf (encoders w1) (self w1);
          w2 = w1\<lparr>encoders := splice1 ndx (encoders w1)\<rparr>;
          w3 = cleanup w2
      in w3\<lparr>clientClosed := True\<rparr>)"

text \<open>\<open>send\<close> through \<open>sendCmd\<close>: a \<open>client.send\<close> that throws disconnects.\<close>

definition sendCmd :: "out \<Rightarrow> world \<Rightarrow> world" where
  "sendCmd m w = (if sendThrows w then disconnect w else w\<lparr>outbox := outbox w @ [m]\<rparr>)"

definition handleStart :: "start_data option \<Rightarrow> world \<Rightarrow> world" where
  "handleStart data0 w =
     (if name w \<noteq> None then sendCmd (CmdErrorText (js ''video already in progress'')) w
      else
        let data = (case data0 of None \<Rightarrow> no_data | Some d \<Rightarrow> d);
            w1 = w\<lparr>framerate := or_num (d_framerate data) 30,
                   extension := safeName (or_str (d_extension data) (js ''.mp4'')),
                   codec := d_codec data\<rparr>;
            allow = allowArbitraryFfmpegArguments (opts w1)
        in if \<not> allow \<and> d_ffmpegArguments data \<noteq> None
           then sendCmd (CmdErrorMsg (js (''ffmpegArguments not allowed without '' @
                  ''--allow-arbitrary-ffmpeg-argumments command line option''))) w1
           else
             let w2 = (if allow then w1\<lparr>ffmpegArguments := d_ffmpegArguments data\<rparr> else w1)
             in w2\<lparr>count := 0, numErrors := 0, ended := False,
                   name := Some (safeName
                     (or_str (d_name data) (js ''untitled'') @ js ''-'' @ ident w2)),
                   frames := []\<rparr>)"

definition handleFFMpegError :: "jsstring \<Rightarrow> world \<Rightarrow> world" where
  "handleFFMpegError result w = (cleanup (sendCmd (CmdErrorResult result) w))\<lparr>name := None\<rparr>"

definition handleFFMpegFrame :: "nat \<Rightarrow> world \<Rightarrow> world" where
  "handleFFMpegFrame frameNum w =
     sendCmd (CmdProgress (js_div frameNum (length (frames w)))) w"

text \<open>Starting an external process: a runner or a spawned child.\<close>

definition spawn :: "proc \<Rightarrow> world \<Rightarrow> world" where
  "spawn p w = w\<lparr>procs := procs w @ [(p, True)]\<rparr>"

definition createVfrVideo :: "jsstring \<Rightarrow> world \<Rightarrow> world" where
  "createVfrVideo videoname w =
     (let d = frameDir (opts w); n = nameStr (name w)
      in spawn (Remux
           [S (js ''-o''), S (path_join d (js ''vfr-'' @ n @ js ''.mp4'')),
            S (js ''-t''), S (path_join d (js ''ts-'' @ n @ js ''.txt'')),
            S videoname]) w)"

definition createCfrVideo :: "world \<Rightarrow> world" where
  "createCfrVideo w =
     (let d = frameDir (opts w); n = nameStr (name w)
      in spawn (Mux
           [S (js ''-y''),
            S (js ''-i''), S (path_join d (js ''vfr-'' @ n @ js ''.mp4'')),
            S (js ''-i''), S (path_join d (n @ js ''.mp3'')),
            S (js ''-map''), S (js ''0:v''),
            S (js ''-map''), S (js ''1:a''),
            S (js ''-shortest''),
            S (path_join d (js ''cfr-'' @ n @ js ''.mp4''))]) w)"

definition nearEndMap :: "int \<Rightarrow> nat option" where
  "nearEndMap v =
     (if v = 10000 then Some 6 else if v = 15000 then Some 10
      else if v = 30000 then Some 23 else None)"

definition createFinalVideo :: "world \<Rightarrow> world" where
  "createFinalVideo w =
     (let d = frameDir (opts w); n = nameStr (name w)
      in spawn (Overlay
           [S (js ''-y''),
            S (js ''-i''), S (path_join d (js ''cfr-'' @ n @ js ''.mp4'')),
            S (js ''-filter_complex''),
            OverlayFilter (textoverlay w) (nearEndMap (videoLength w)),
            S (js ''-codec:a''), S (js ''copy''),
            S (path_join d (js ''final-'' @ n @ js ''.mp4''))]) w)"

definition checkForEnd :: "world \<Rightarrow> world" where
  "checkForEnd w =
     (if ended w \<and> numWriting w = 0 then
        let videoname = path_join (videoDir (opts w)) (nameStr (name w) @ extension w);
            framesname = path_join (frameDir (opts w)) (nameStr (name w) @ js ''-%d.png'');
            args = [S (js ''-framerate''), N (framerate w),
                    S (js ''-pattern_type''), S (js ''sequence''),
                    S (js ''-start_number''), S (js ''0''),
                    S (js ''-i''), S framesname,
                    S (js ''-y'')];
            args1 = (case codec w of
                       Some c \<Rightarrow> if c \<noteq> [] then args @ [S (js ''-c:v''), S c]
                                 else if extension w = js ''.mp4''
                                 then args @ [S (js ''-c:v''), S (js ''libx264''),
                                              S (js ''-pix_fmt''), S (js ''yuv420p'')]
                                 else args
                     | None \<Rightarrow> if extension w = js ''.mp4''
                               then args @ [S (js ''-c:v''), S (js ''libx264''),
                                            S (js ''-pix_fmt''), S (js ''yuv420p'')]
                               else args);
            args2 = (case ffmpegArguments w of Some a \<Rightarrow> args1 @ map S a | None \<Rightarrow> args1)
        in spawn (Encode videoname (args2 @ [S videoname])) w
      else w)"

definition EXPECTED_HEADER :: jsstring where
  "EXPECTED_HEADER = js ''data:image/png;base64,''"

definition handleFrame :: "jsstring \<Rightarrow> world \<Rightarrow> world" where
  "handleFrame dataURL w =
     (if name w = None then sendCmd (CmdErrorText (js ''video not started'')) w
      else if take (length EXPECTED_HEADER) dataURL \<noteq> EXPECTED_HEADER then w
      else
        let frameNum = count w;
            filename = path_join (frameDir (opts w))
                         (nameStr (name w) @ js ''-'' @ digits frameNum @ js ''.png'')
        in w\<lparr>count := count w + 1,
              numWriting := numWriting w + 1,
              writes := writes w @ [(filename, frameNum, Pending)]\<rparr>)"

text \<open>
  The callback that \<open>handleFrame\<close> passes to \<open>fs.writeFile\<close>, with the \<open>filename\<close>
  and \<open>frameNum\<close> it has captured.
\<close>

definition frameWritten :: "jsstring \<Rightarrow> nat \<Rightarrow> bool \<Rightarrow> world \<Rightarrow> world" where
  "frameWritten filename frameNum err w =
     (let w1 = w\<lparr>numWriting := numWriting w - 1\<rparr> in
      if err then
        (let w2 = w1\<lparr>numErrors := numErrors w1 + 1\<rparr>
         in if numWriting w2 = 0 then checkForEnd w2 else w2)
      else if \<not> connected w1 then deleteNoFail filename w1
      else
        (let w2 = sendCmd (CmdFrame frameNum) (w1\<lparr>frames := frames w1 @ [filename]\<rparr>)
         in if numWriting w2 = 0 then checkForEnd w2 else w2))"

definition handleEnd :: "world \<Rightarrow> world" where
  "handleEnd w =
     (if name w = None then sendCmd (CmdErrorText (js ''video not started'')) w
      else checkForEnd (w\<lparr>ended := True\<rparr>))"

definition handleTimestamps :: "world \<Rightarrow> world" where
  "handleTimestamps w =
     w\<lparr>auxWrites := auxWrites w @
         [(path_join (frameDir (opts w)) (js ''ts-'' @ nameStr (name w) @ js ''.txt''),
           Pending)]\<rparr>"

definition handleAudioFile :: "world \<Rightarrow> world" where
  "handleAudioFile w =
     w\<lparr>auxWrites := auxWrites w @
         [(path_join (frameDir (opts w)) (nameStr (name w) @ js ''.mp3''), Pending)]\<rparr>"

definition handleMeta :: "jsstring \<Rightarrow> int \<Rightarrow> world \<Rightarrow> world" where
  "handleMeta textOverlay len w =
     w\<lparr>textoverlay := toUpperCase textOverlay, videoLength := len\<rparr>"

text \<open>
  A message of the client, by its \<open>cmd\<close>. The content of a timestamp or audio
  payload is not kept: only the names of the files are tracked. \<open>Other\<close> is a
  command without a handler.
\<close>

datatype message =
    Start "start_data option"
  | Frame jsstring
  | End
  | Timestamps
  | AudioFile
  | Meta jsstring int
  | Other jsstring

fun onMessage :: "message \<Rightarrow> world \<Rightarrow> world" where
  "onMessage (Start d) w = handleStart d w"
| "onMessage (Frame dataURL) w = handleFrame dataURL w"
| "onMessage End w = handleEnd w"
| "onMessage Timestamps w = handleTimestamps w"
| "onMessage AudioFile w = handleAudioFile w"
| "onMessage (Meta t l) w = handleMeta t l w"
| "onMessage (Other c) w = w"

section \<open>Events\<close>

text \<open>
  What calls into the encoder: the client's three events, the completion of a
  write (with whether it failed), the events of a runner (the index is the position
  of the process in \<open>procs\<close>), the \<open>close\<close> of a spawned child with its exit
  code, and the settling of an \<open>addFile\<close> promise. An event for a write, a process
  or a promise that is not there, or is over, does nothing. The handlers of the
  server process's own exit, which run \<open>cleanup\<close> on every encoder of the
  registry, are left out.
\<close>

datatype event =
    Message message
  | ClientDisconnect
  | ClientError
  | WriteDone nat bool
  | AuxWriteDone nat bool
  | RunnerFrame nat nat
  | RunnerDone nat
  | RunnerError nat jsstring
  | SpawnClose nat int
  | AddFileResolved nat jsstring
  | AddFileRejected nat

text \<open>
  \<open>fs.writeFile\<close> calls back once for each write; on success the file exists when
  the callback runs, and a write that has failed leaves no file.
\<close>

definition writeDone :: "nat \<Rightarrow> bool \<Rightarrow> world \<Rightarrow> world" where
  "writeDone k err w =
     (if k < length (writes w) then
        (case writes w ! k of
           (filename, frameNum, Pending) \<Rightarrow>
             frameWritten filename frameNum err
               (w\<lparr>writes := (writes w)[k := (filename, frameNum, if err then Failed else Written)],
                  files := (if err then files w else insert filename (files w))\<rparr>)
         | _ \<Rightarrow> w)
      else w)"

text \<open>The callbacks of the timestamp and audio writes only log.\<close>

definition auxWriteDone :: "nat \<Rightarrow> bool \<Rightarrow> world \<Rightarrow> world" where
  "auxWriteDone k err w =
     (if k < length (auxWrites w) then
        (case auxWrites w ! k of
           (filename, Pending) \<Rightarrow>
             w\<lparr>auxWrites := (auxWrites w)[k := (filename, if err then Failed else Written)],
               files := (if err then files w else insert filename (files w))\<rparr>
         | _ \<Rightarrow> w)
      else w)"

text \<open>
  Modelled from the spec: \<open>FFMpegRunner\<close> of \<open>lib/ffmpeg-runner\<close>, which is not among
  the sources. A running process emits progress notifications and exactly one
  terminal event, \<open>done\<close> or \<open>error\<close>, after which it emits nothing.
\<close>

definition exited :: "nat \<Rightarrow> world \<Rightarrow> world" where
  "exited k w = w\<lparr>procs := (procs w)[k := (fst (procs w ! k), False)]\<rparr>"

definition runnerFrame :: "nat \<Rightarrow> nat \<Rightarrow> world \<Rightarrow> world" where
  "runnerFrame k frameNum w =
     (if k < length (procs w) then
        (case procs w ! k of
           (Encode v a, True) \<Rightarrow> handleFFMpegFrame frameNum w
         | (Overlay a, True) \<Rightarrow> handleFFMpegFrame frameNum w
         | _ \<Rightarrow> w)
      else w)"

definition runnerError :: "nat \<Rightarrow> jsstring \<Rightarrow> world \<Rightarrow> world" where
  "runnerError k result w =
     (if k < length (procs w) then
        (case procs w ! k of
           (Encode v a, True) \<Rightarrow> handleFFMpegError result (exited k w)
         | (Overlay a, True) \<Rightarrow> handleFFMpegError result (exited k w)
         | _ \<Rightarrow> w)
      else w)"

text \<open>
  The \<open>done\<close> handlers: the first stage goes on to \<open>createVfrVideo\<close>; the last one
  calls \<open>server.addFile\<close> on the final video.
\<close>

definition runnerDone :: "nat \<Rightarrow> world \<Rightarrow> world" where
  "runnerDone k w =
     (if k < length (procs w) then
        (case procs w ! k of
           (Encode videoname a, True) \<Rightarrow> createVfrVideo videoname (exited k w)
         | (Overlay a, True) \<Rightarrow>
             (let w1 = exited k w
              in w1\<lparr>addFiles := addFiles w1 @
                      [(path_join (frameDir (opts w1))
                          (js ''final-'' @ nameStr (name w1) @ js ''.mp4''), True)]\<rparr>)
         | _ \<Rightarrow> w)
      else w)"

text \<open>
  The \<open>close\<close> handlers of the spawned children: \<open>createCfrVideo\<close> after
  \<open>mp4fpsmod\<close>, \<open>createFinalVideo\<close> after \<open>ffmpeg\<close>. Neither looks at the exit code.
\<close>

definition spawnClose :: "nat \<Rightarrow> int \<Rightarrow> world \<Rightarrow> world" where
  "spawnClose k code w =
     (if k < length (procs w) then
        (case procs w ! k of
           (Remux a, True) \<Rightarrow> createCfrVideo (exited k w)
         | (Mux a, True) \<Rightarrow> createFinalVideo (exited k w)
         | _ \<Rightarrow> w)
      else w)"

text \<open>
  The promise of \<open>server.addFile\<close>: resolved, the \<open>end\<close> event is sent and
  \<open>cleanup\<close> runs; rejected, the error is logged and thrown again.
\<close>

definition addFileResolved :: "nat \<Rightarrow> jsstring \<Rightarrow> world \<Rightarrow> world" where
  "addFileResolved k fileInfo w =
     (if k < length (addFiles w) \<and> snd (addFiles w ! k) then
        cleanup (sendCmd (CmdEnd fileInfo)
          (w\<lparr>addFiles := (addFiles w)[k := (fst (addFiles w ! k), False)]\<rparr>))
      else w)"

definition addFileRejected :: "nat \<Rightarrow> world \<Rightarrow> world" where
  "addFileRejected k w =
     (if k < length (addFiles w) \<and> snd (addFiles w ! k) then
        w\<lparr>addFiles := (addFiles w)[k := (fst (addFiles w ! k), False)]\<rparr>
      else w)"

fun step :: "event \<Rightarrow> world \<Rightarrow> world" where
  "step (Message m) w = onMessage m w"
| "step ClientDisconnect w = disconnect w"
| "step ClientError w = disconnect w"
| "step (WriteDone k err) w = writeDone k err w"
| "step (AuxWriteDone k err) w = auxWriteDone k err w"
| "step (RunnerFrame k n) w = runnerFrame k n w"
| "step (RunnerDone k) w = runnerDone k w"
| "step (RunnerError k r) w = runnerError k r w"
| "step (SpawnClose k c) w = spawnClose k c w"
| "step (AddFileResolved k i) w = addFileResolved k i w"
| "step (AddFileRejected k) w = addFileRejected k w"

text \<open>A run: the events in the order they are dispatched.\<close>

definition run :: "event list \<Rightarrow> world \<Rightarrow> world" where
  "run es w = fold step es w"

text \<open>
  The constructor: the initial values of the closure's variables, then
  \<open>sendCmd("start", {})\<close>, then \<open>encoders.push(this)\<close>. Its parameters are the
  \<open>id\<close>, the identity of the new object, the options, the registry as it is, and
  whether the client's \<open>send\<close> throws.
\<close>

definition VideoEncoder :: "jsstring \<Rightarrow> nat \<Rightarrow> options \<Rightarrow> nat list \<Rightarrow> bool \<Rightarrow> world" where
  "VideoEncoder i this os registry throws =
     (let w0 = \<lparr>ident = i, self = this, opts = os,
                count = 0, name = None, frames = [], numWriting = 0, numErrors = 0,
                ended = False, framerate = 30, extension = js ''.mp4'', codec = None,
                connected = True, ffmpegArguments = None, textoverlay = [],
                videoLength = 0,
                encoders = registry, sendThrows = throws, clientClosed = False,
                outbox = [], files = {}, writes = [], auxWrites = [], procs = [],
                addFiles = []\<rparr>;
          w1 = sendCmd CmdStart w0
      in w1\<lparr>encoders := encoders w1 @ [this]\<rparr>)"

section \<open>Observations on a state\<close>

text \<open>The paths that \<open>cleanup\<close> deletes besides the frames.\<close>

definition cleanupPaths :: "world \<Rightarrow> jsstring set" where
  "cleanupPaths w =
     (let d = videoDir (opts w); n = nameStr (name w)
      in {path_join d (js ''ts-'' @ n @ js ''.txt''),
          path_join d (js ''vfr-'' @ n @ js ''.mp4''),
          path_join d (js ''cfr-'' @ n @ js ''.mp4''),
          path_join d (n @ js ''.mp3''),
          path_join d (n @ js ''.mp4'')})"

text \<open>
  Pipeline assembly begins with the first external invocation, the \<open>Encode\<close>
  runner: \<open>encodes\<close> counts the ones started so far.
\<close>

definition isEncode :: "proc \<times> bool \<Rightarrow> bool" where
  "isEncode p = (case fst p of Encode v a \<Rightarrow> True | _ \<Rightarrow> False)"

definition encodes :: "world \<Rightarrow> nat" where
  "encodes w = length (filter isEncode (procs w))"

text \<open>The frame writes in flight.\<close>

definition isPending :: "jsstring \<times> nat \<times> wstatus \<Rightarrow> bool" where
  "isPending x = (snd (snd x) = Pending)"

definition pendingWrites :: "world \<Rightarrow> nat" where
  "pendingWrites w = length (filter isPending (writes w))"



text \<open>
  The frame numbers handed out so far, in the order of the submissions, and the
  stages of the processes started so far (1 the frame-sequence encode, 2 the remux,
  3 the audio mux, 4 the overlay).
\<close>

definition frameNums :: "world \<Rightarrow> nat list" where
  "frameNums w = map (fst \<circ> snd) (writes w)"

definition stageOf :: "proc \<Rightarrow> nat" where
  "stageOf p = (case p of Encode v a \<Rightarrow> 1 | Remux a \<Rightarrow> 2 | Mux a \<Rightarrow> 3 | Overlay a \<Rightarrow> 4)"

definition stages :: "world \<Rightarrow> nat list" where
  "stages w = map (stageOf \<circ> fst) (procs w)"

text \<open>
  A run stays within one session when none of its \<open>start\<close> messages is accepted:
  each arrives while the session has its name.
\<close>

fun sameSession :: "event list \<Rightarrow> world \<Rightarrow> bool" where
  "sameSession [] w = True"
| "sameSession (e # es) w =
     ((case e of Message (Start d) \<Rightarrow> name w \<noteq> None | _ \<Rightarrow> True) \<and> sameSession es (step e w))"

definition isWriteDone :: "event \<Rightarrow> bool" where
  "isWriteDone e = (case e of WriteDone k err \<Rightarrow> True | _ \<Rightarrow> False)"

text \<open>
  What the completions of frame writes do to a disconnected session \<open>v\<close>: nothing
  is registered or sent, the registry is left alone, files only disappear, a
  completed write stays as it is, and the file of a write that was in flight and
  has succeeded is gone.
\<close>

definition discards :: "world \<Rightarrow> world \<Rightarrow> bool" where
  "discards v w \<longleftrightarrow>
     \<not> connected w \<and> frames w = frames v \<and> outbox w = outbox v \<and> encoders w = encoders v
     \<and> files w \<subseteq> files v \<and> length (writes w) = length (writes v)
     \<and> (\<forall>j < length (writes v).
          fst (writes w ! j) = fst (writes v ! j)
          \<and> (\<not> isPending (writes v ! j) \<longrightarrow> snd (snd (writes w ! j)) = snd (snd (writes v ! j)))
          \<and> (isPending (writes v ! j) \<and> snd (snd (writes w ! j)) = Written
               \<longrightarrow> fst (writes v ! j) \<notin> files w))"

section \<open>Example sessions\<close>

text \<open>
  A server started with \<open>--frame-dir=/tmp --video-dir=videos\<close>, one connection with
  the id \<open>1\<close>, and a well-formed frame.
\<close>

definition exampleOptions :: options where
  "exampleOptions = \<lparr>videoDir = js ''videos'', frameDir = js ''/tmp'', keepFrames = False,
     allowArbitraryFfmpegArguments = False\<rparr>"

definition exampleEncoder :: world where
  "exampleEncoder = VideoEncoder (js ''1'') 0 exampleOptions [] False"

definition pngFrame :: jsstring where
  "pngFrame = js ''data:image/png;base64,iVBORw0KGgo=''"

definition capturing :: world where
  "capturing = step (Message (Start None)) exampleEncoder"

definition assembling :: world where
  "assembling = run [Message (Start None), Message End] exampleEncoder"

definition remuxing :: world where
  "remuxing = step (RunnerDone 0) assembling"

definition twoPending :: world where
  "twoPending =
     run [Message (Start None), Message (Frame pngFrame), Message (Frame pngFrame)]
       (VideoEncoder (js ''1'') 7 exampleOptions [3, 5] False)"

text \<open>
  A capturing session with one frame registered, at the moment the connection has
  broken: \<open>client.send\<close> throws from now on.
\<close>

definition brokenClient :: world where
  "brokenClient =
     (run [Message (Start None), Message (Frame pngFrame), WriteDone 0 False]
        exampleEncoder)\<lparr>sendThrows := True\<rparr>"


definition threeFrames :: "event list" where
  "threeFrames =
     [Message (Frame pngFrame), Message (Frame pngFrame), WriteDone 1 True,
      Message (Start None), Message (Frame pngFrame), WriteDone 0 False]"

definition noTimestampsNoAudio :: "event list" where
  "noTimestampsNoAudio =
     [Message (Start None), Message (Frame pngFrame), WriteDone 0 False, Message End,
      RunnerDone 0, SpawnClose 1 0]"

definition remuxFails :: "event list" where
  "remuxFails =
     [Message (Start None), Message (Frame pngFrame), WriteDone 0 False, Message End,
      RunnerDone 0, SpawnClose 1 1]"

definition encodeFails :: "event list" where
  "encodeFails =
     [Message (Start (Some (no_data\<lparr>d_name := Some (js ''a'')\<rparr>))),
      Message Timestamps, AuxWriteDone 0 False,
      Message AudioFile, AuxWriteDone 1 False,
      Message End, RunnerError 0 (js ''exit 1'')]"

definition disconnectWhileEncoding :: "event list" where
  "disconnectWhileEncoding =
     [Message (Start None), Message (Frame pngFrame), WriteDone 0 False, Message End,
      ClientDisconnect, RunnerFrame 0 1]"

section \<open>The effect of the helpers\<close>

lemma fold_deleteNoFail: "fold deleteNoFail ps w = w\<lparr>files := files w - set ps\<rparr>"
proof (induction ps arbitrary: w)
  case Nil
  show ?case by simp
next
  case (Cons p ps)
  have "fold deleteNoFail (p # ps) w = fold deleteNoFail ps (deleteNoFail p w)"
    by simp
  also have "\<dots> = (deleteNoFail p w)\<lparr>files := files (deleteNoFail p w) - set ps\<rparr>"
    by (rule Cons.IH)
  also have "\<dots> = w\<lparr>files := files w - {p} - set ps\<rparr>"
    by (simp add: deleteNoFail_def)
  also have "files w - {p} - set ps = files w - set (p # ps)"
    by auto
  finally show ?case .
qed

lemma cleanup_eq:
  "cleanup w =
     w\<lparr>frames := (if keepFrames (opts w) then frames w else []),
       files := files w - (if keepFrames (opts w) then {} else set (frames w)) - cleanupPaths w\<rparr>"
proof -
  have 1: "fold deleteNoFail [a, b, c, d, e] v = v\<lparr>files := files v - {a, b, c, d, e}\<rparr>"
    for a b c d e v
    using fold_deleteNoFail [of "[a, b, c, d, e]" v] by simp
  show ?thesis
    unfolding cleanup_def Let_def 1 cleanupPaths_def
    by (cases "frames w = []") (simp_all add: fold_deleteNoFail)
qed

lemma disconnect_eq:
  "disconnect w =
     w\<lparr>connected := False,
       encoders := splice1 (indexOf (encoders w) (self w)) (encoders w),
       frames := (if keepFrames (opts w) then frames w else []),
       files := files w - (if keepFrames (opts w) then {} else set (frames w)) - cleanupPaths w,
       clientClosed := True\<rparr>"
  by (simp add: disconnect_def cleanup_eq Let_def cleanupPaths_def)


lemma deleteNoFail_fields [simp]:
  "ident (deleteNoFail p w) = ident w"
  "self (deleteNoFail p w) = self w"
  "opts (deleteNoFail p w) = opts w"
  "count (deleteNoFail p w) = count w"
  "name (deleteNoFail p w) = name w"
  "frames (deleteNoFail p w) = frames w"
  "numWriting (deleteNoFail p w) = numWriting w"
  "numErrors (deleteNoFail p w) = numErrors w"
  "ended (deleteNoFail p w) = ended w"
  "framerate (deleteNoFail p w) = framerate w"
  "extension (deleteNoFail p w) = extension w"
  "codec (deleteNoFail p w) = codec w"
  "connected (deleteNoFail p w) = connected w"
  "ffmpegArguments (deleteNoFail p w) = ffmpegArguments w"
  "textoverlay (deleteNoFail p w) = textoverlay w"
  "videoLength (deleteNoFail p w) = videoLength w"
  "encoders (deleteNoFail p w) = encoders w"
  "sendThrows (deleteNoFail p w) = sendThrows w"
  "clientClosed (deleteNoFail p w) = clientClosed w"
  "outbox (deleteNoFail p w) = outbox w"
  "writes (deleteNoFail p w) = writes w"
  "auxWrites (deleteNoFail p w) = auxWrites w"
  "procs (deleteNoFail p w) = procs w"
  "addFiles (deleteNoFail p w) = addFiles w"
  by (simp_all add: deleteNoFail_def)

lemma cleanup_fields [simp]:
  "ident (cleanup w) = ident w"
  "self (cleanup w) = self w"
  "opts (cleanup w) = opts w"
  "count (cleanup w) = count w"
  "name (cleanup w) = name w"
  "numWriting (cleanup w) = numWriting w"
  "numErrors (cleanup w) = numErrors w"
  "ended (cleanup w) = ended w"
  "framerate (cleanup w) = framerate w"
  "extension (cleanup w) = extension w"
  "codec (cleanup w) = codec w"
  "connected (cleanup w) = connected w"
  "ffmpegArguments (cleanup w) = ffmpegArguments w"
  "textoverlay (cleanup w) = textoverlay w"
  "videoLength (cleanup w) = videoLength w"
  "encoders (cleanup w) = encoders w"
  "sendThrows (cleanup w) = sendThrows w"
  "clientClosed (cleanup w) = clientClosed w"
  "outbox (cleanup w) = outbox w"
  "writes (cleanup w) = writes w"
  "auxWrites (cleanup w) = auxWrites w"
  "procs (cleanup w) = procs w"
  "addFiles (cleanup w) = addFiles w"
  by (simp_all add: cleanup_eq)

lemma disconnect_fields [simp]:
  "ident (disconnect w) = ident w"
  "self (disconnect w) = self w"
  "opts (disconnect w) = opts w"
  "count (disconnect w) = count w"
  "name (disconnect w) = name w"
  "numWriting (disconnect w) = numWriting w"
  "numErrors (disconnect w) = numErrors w"
  "ended (disconnect w) = ended w"
  "framerate (disconnect w) = framerate w"
  "extension (disconnect w) = extension w"
  "codec (disconnect w) = codec w"
  "ffmpegArguments (disconnect w) = ffmpegArguments w"
  "textoverlay (disconnect w) = textoverlay w"
  "videoLength (disconnect w) = videoLength w"
  "sendThrows (disconnect w) = sendThrows w"
  "outbox (disconnect w) = outbox w"
  "writes (disconnect w) = writes w"
  "auxWrites (disconnect w) = auxWrites w"
  "procs (disconnect w) = procs w"
  "addFiles (disconnect w) = addFiles w"
  by (simp_all add: disconnect_eq)

lemma sendCmd_fields [simp]:
  "ident (sendCmd m w) = ident w"
  "self (sendCmd m w) = self w"
  "opts (sendCmd m w) = opts w"
  "count (sendCmd m w) = count w"
  "name (sendCmd m w) = name w"
  "numWriting (sendCmd m w) = numWriting w"
  "numErrors (sendCmd m w) = numErrors w"
  "ended (sendCmd m w) = ended w"
  "framerate (sendCmd m w) = framerate w"
  "extension (sendCmd m w) = extension w"
  "codec (sendCmd m w) = codec w"
  "ffmpegArguments (sendCmd m w) = ffmpegArguments w"
  "textoverlay (sendCmd m w) = textoverlay w"
  "videoLength (sendCmd m w) = videoLength w"
  "sendThrows (sendCmd m w) = sendThrows w"
  "writes (sendCmd m w) = writes w"
  "auxWrites (sendCmd m w) = auxWrites w"
  "procs (sendCmd m w) = procs w"
  "addFiles (sendCmd m w) = addFiles w"
  by (simp_all add: sendCmd_def)

lemma spawn_fields [simp]:
  "ident (spawn p w) = ident w"
  "self (spawn p w) = self w"
  "opts (spawn p w) = opts w"
  "count (spawn p w) = count w"
  "name (spawn p w) = name w"
  "frames (spawn p w) = frames w"
  "numWriting (spawn p w) = numWriting w"
  "numErrors (spawn p w) = numErrors w"
  "ended (spawn p w) = ended w"
  "framerate (spawn p w) = framerate w"
  "extension (spawn p w) = extension w"
  "codec (spawn p w) = codec w"
  "connected (spawn p w) = connected w"
  "ffmpegArguments (spawn p w) = ffmpegArguments w"
  "textoverlay (spawn p w) = textoverlay w"
  "videoLength (spawn p w) = videoLength w"
  "encoders (spawn p w) = encoders w"
  "sendThrows (spawn p w) = sendThrows w"
  "clientClosed (spawn p w) = clientClosed w"
  "outbox (spawn p w) = outbox w"
  "files (spawn p w) = files w"
  "writes (spawn p w) = writes w"
  "auxWrites (spawn p w) = auxWrites w"
  "addFiles (spawn p w) = addFiles w"
  by (simp_all add: spawn_def)

lemma exited_fields [simp]:
  "ident (exited k w) = ident w"
  "self (exited k w) = self w"
  "opts (exited k w) = opts w"
  "count (exited k w) = count w"
  "name (exited k w) = name w"
  "frames (exited k w) = frames w"
  "numWriting (exited k w) = numWriting w"
  "numErrors (exited k w) = numErrors w"
  "ended (exited k w) = ended w"
  "framerate (exited k w) = framerate w"
  "extension (exited k w) = extension w"
  "codec (exited k w) = codec w"
  "connected (exited k w) = connected w"
  "ffmpegArguments (exited k w) = ffmpegArguments w"
  "textoverlay (exited k w) = textoverlay w"
  "videoLength (exited k w) = videoLength w"
  "encoders (exited k w) = encoders w"
  "sendThrows (exited k w) = sendThrows w"
  "clientClosed (exited k w) = clientClosed w"
  "outbox (exited k w) = outbox w"
  "files (exited k w) = files w"
  "writes (exited k w) = writes w"
  "auxWrites (exited k w) = auxWrites w"
  "addFiles (exited k w) = addFiles w"
  by (simp_all add: exited_def)

lemma checkForEnd_fields [simp]:
  "ident (checkForEnd w) = ident w"
  "self (checkForEnd w) = self w"
  "opts (checkForEnd w) = opts w"
  "count (checkForEnd w) = count w"
  "name (checkForEnd w) = name w"
  "frames (checkForEnd w) = frames w"
  "numWriting (checkForEnd w) = numWriting w"
  "numErrors (checkForEnd w) = numErrors w"
  "ended (checkForEnd w) = ended w"
  "framerate (checkForEnd w) = framerate w"
  "extension (checkForEnd w) = extension w"
  "codec (checkForEnd w) = codec w"
  "connected (checkForEnd w) = connected w"
  "ffmpegArguments (checkForEnd w) = ffmpegArguments w"
  "textoverlay (checkForEnd w) = textoverlay w"
  "videoLength (checkForEnd w) = videoLength w"
  "encoders (checkForEnd w) = encoders w"
  "sendThrows (checkForEnd w) = sendThrows w"
  "clientClosed (checkForEnd w) = clientClosed w"
  "outbox (checkForEnd w) = outbox w"
  "files (checkForEnd w) = files w"
  "writes (checkForEnd w) = writes w"
  "auxWrites (checkForEnd w) = auxWrites w"
  "addFiles (checkForEnd w) = addFiles w"
  by (simp_all add: checkForEnd_def Let_def)

lemma procs_spawn [simp]: "procs (spawn p w) = procs w @ [(p, True)]"
  by (simp add: spawn_def)

lemma procs_exited [simp]: "procs (exited k w) = (procs w)[k := (fst (procs w ! k), False)]"
  by (simp add: exited_def)

section \<open>The sanitizer: properties\<close>

text \<open>
  Claim C6, as the code has it: for every title, the sanitized name is as long as
  the title but at most 30 code units, it agrees with the title wherever the title's
  code unit is in \<open>[0-9A-Za-z-.]\<close> and has the underscore everywhere else, and so
  every code unit of it is in that class or is the underscore.
\<close>

theorem safeName_sanitized:
  "length (safeName t) = min 30 (length t)
   \<and> (\<forall>i < length (safeName t).
         safeName t ! i = (if allowed (t ! i) then t ! i else underscore))
   \<and> (\<forall>c \<in> set (safeName t). allowed c \<or> c = underscore)"
  by (auto simp: safeName_def min_def)

theorem safeName_sanitized_witness:
  "length (safeName (js ''my video/1'')) = min 30 (length (js ''my video/1''))
   \<and> safeName (js ''my video/1'') = js ''my_video_1''"
proof -
  have "length (safeName (js ''my video/1'')) = min 30 (length (js ''my video/1''))"
    using safeName_sanitized [of "js ''my video/1''"] by blast
  moreover have "safeName (js ''my video/1'') = js ''my_video_1''"
    by (simp add: safeName_def js_def allowed_def underscore_def)
  ultimately show ?thesis by blast
qed

text \<open>
  The underscore is not in the class: a title with a blank gives a name that does
  not match \<open>[0-9A-Za-z-.]*\<close>.
\<close>

theorem safeName_underscore_counterexample:
  "underscore \<in> set (safeName (js ''a b'')) \<and> \<not> allowed underscore"
  by (simp add: safeName_def js_def allowed_def underscore_def)

section \<open>The end condition\<close>

lemma length_filter_update:
  "k < length xs \<Longrightarrow>
   length (filter P (xs[k := y])) + (if P (xs ! k) then 1 else 0) =
   length (filter P xs) + (if P y then 1 else 0)"
proof (induction xs arbitrary: k)
  case Nil
  then show ?case by simp
next
  case (Cons x xs)
  show ?case
  proof (cases k)
    case 0
    then show ?thesis by simp
  next
    case (Suc j)
    with Cons.prems have "j < length xs" by simp
    from Cons.IH [OF this] Suc show ?thesis by simp
  qed
qed

lemma encodes_exited [simp]:
  "k < length (procs w) \<Longrightarrow> encodes (exited k w) = encodes w"
  using length_filter_update [of k "procs w" isEncode "(fst (procs w ! k), False)"]
  by (simp add: encodes_def exited_def isEncode_def)

lemma encodes_cong: "procs v = procs w \<Longrightarrow> encodes v = encodes w"
  by (simp add: encodes_def)

lemma encodes_spawn [simp]:
  "encodes (spawn p w) = encodes w + (case p of Encode v a \<Rightarrow> 1 | _ \<Rightarrow> 0)"
  by (simp add: encodes_def spawn_def isEncode_def split: proc.splits)

lemma encodes_checkForEnd [simp]:
  "encodes (checkForEnd w) = encodes w + (if ended w \<and> numWriting w = 0 then 1 else 0)"
  by (simp add: checkForEnd_def Let_def)

lemma encodes_simps [simp]:
  "encodes (sendCmd m w) = encodes w"
  "encodes (cleanup w) = encodes w"
  "encodes (disconnect w) = encodes w"
  "encodes (deleteNoFail p w) = encodes w"
  by (simp_all add: encodes_def)


lemma encodes_upd [simp]:
  "encodes (w\<lparr>numWriting := a\<rparr>) = encodes w"
  "encodes (w\<lparr>numErrors := b\<rparr>) = encodes w"
  "encodes (w\<lparr>frames := c\<rparr>) = encodes w"
  "encodes (w\<lparr>files := d\<rparr>) = encodes w"
  "encodes (w\<lparr>ended := e\<rparr>) = encodes w"
  "encodes (w\<lparr>writes := ws\<rparr>) = encodes w"
  "encodes (w\<lparr>addFiles := af\<rparr>) = encodes w"
  "encodes (w\<lparr>name := nm\<rparr>) = encodes w"
  by (simp_all add: encodes_def)


lemma pendingWrites_simps [simp]:
  "pendingWrites (sendCmd m w) = pendingWrites w"
  "pendingWrites (cleanup w) = pendingWrites w"
  "pendingWrites (disconnect w) = pendingWrites w"
  "pendingWrites (deleteNoFail p w) = pendingWrites w"
  "pendingWrites (checkForEnd w) = pendingWrites w"
  "pendingWrites (spawn q w) = pendingWrites w"
  "pendingWrites (exited k w) = pendingWrites w"
  by (simp_all add: pendingWrites_def)











section \<open>Frame numbers\<close>

lemma frameNums_simps [simp]:
  "frameNums (sendCmd m w) = frameNums w"
  "frameNums (cleanup w) = frameNums w"
  "frameNums (disconnect w) = frameNums w"
  "frameNums (deleteNoFail p w) = frameNums w"
  "frameNums (checkForEnd w) = frameNums w"
  "frameNums (spawn q w) = frameNums w"
  "frameNums (exited k w) = frameNums w"
  by (simp_all add: frameNums_def)

lemma frameNums_update:
  "k < length (writes w) \<Longrightarrow> writes w ! k = (f, n, st) \<Longrightarrow>
   map (fst \<circ> snd) ((writes w)[k := (f, n, st')]) = map (fst \<circ> snd) (writes w)"
  by (simp add: map_update list_update_same_conv)

lemma step_frameNums:
  assumes "case e of Message (Start d) \<Rightarrow> name w \<noteq> None | _ \<Rightarrow> True"
  shows "frameNums (step e w) = frameNums w @ [count w ..< count (step e w)]
         \<and> count w \<le> count (step e w)"
proof (cases e)
  case (Message m)
  with assms show ?thesis
    by (cases m)
      (simp_all add: handleStart_def handleFrame_def handleEnd_def handleTimestamps_def
        handleAudioFile_def handleMeta_def frameNums_def Let_def)
next
  case (WriteDone k err)
  then show ?thesis
    by (simp add: writeDone_def frameWritten_def Let_def frameNums_update frameNums_def
        split: prod.splits wstatus.splits)
next
  case (AuxWriteDone k err)
  then show ?thesis
    by (simp add: auxWriteDone_def frameNums_def split: prod.splits wstatus.splits)
next
  case (RunnerFrame k n)
  then show ?thesis
    by (simp add: runnerFrame_def handleFFMpegFrame_def
        split: prod.splits proc.splits bool.splits)
next
  case (RunnerDone k)
  then show ?thesis
    by (simp add: runnerDone_def createVfrVideo_def Let_def frameNums_def
        split: prod.splits proc.splits bool.splits)
next
  case (RunnerError k r)
  then show ?thesis
    by (simp add: runnerError_def handleFFMpegError_def frameNums_def
        split: prod.splits proc.splits bool.splits)
next
  case (SpawnClose k c)
  then show ?thesis
    by (simp add: spawnClose_def createCfrVideo_def createFinalVideo_def Let_def
        split: prod.splits proc.splits bool.splits)
next
  case (AddFileResolved k i)
  then show ?thesis
    by (simp add: addFileResolved_def frameNums_def)
next
  case (AddFileRejected k)
  then show ?thesis
    by (simp add: addFileRejected_def frameNums_def)
qed simp_all

lemma run_frameNums:
  "sameSession es w \<Longrightarrow>
   frameNums (run es w) = frameNums w @ [count w ..< count (run es w)]
   \<and> count w \<le> count (run es w)"
proof (induction es arbitrary: w)
  case Nil
  show ?case by (simp add: run_def)
next
  case (Cons e es)
  from Cons.prems have e: "case e of Message (Start d) \<Rightarrow> name w \<noteq> None | _ \<Rightarrow> True"
    and es: "sameSession es (step e w)"
    by simp_all
  have r: "run (e # es) w = run es (step e w)"
    by (simp add: run_def)
  from step_frameNums [OF e] have 1: "frameNums (step e w) = frameNums w @ [count w ..< count (step e w)]"
    and 2: "count w \<le> count (step e w)"
    by simp_all
  from Cons.IH [OF es]
  have 3: "frameNums (run es (step e w))
             = frameNums (step e w) @ [count (step e w) ..< count (run es (step e w))]"
    and 4: "count (step e w) \<le> count (run es (step e w))"
    by simp_all
  have "[count w ..< count (step e w)] @ [count (step e w) ..< count (run es (step e w))]
          = [count w ..< count (run es (step e w))]"
    using 2 4 by (metis le_Suc_ex upt_add_eq_append)
  with 1 2 3 4 show ?case
    unfolding r by simp
qed

text \<open>
  Claim C5: within one session (a run in which no \<open>start\<close> is accepted), whatever
  the order and the outcome of the write completions, the frame numbers handed out
  are the consecutive values from the counter's value at the beginning of the run
  up to its value at the end, in the order of the submissions: they are strictly
  increasing, none is used twice, and the numbers handed out before are left as
  they are. An accepted frame gets its number in the step that receives it.
\<close>

theorem frame_indices_consecutive:
  assumes "sameSession es w"
  shows "frameNums (run es w) = frameNums w @ [count w ..< count (run es w)]
         \<and> sorted_wrt (<) (drop (length (frameNums w)) (frameNums (run es w)))
         \<and> (name w \<noteq> None \<and> take (length EXPECTED_HEADER) u = EXPECTED_HEADER \<longrightarrow>
              frameNums (step (Message (Frame u)) w) = frameNums w @ [count w])"
proof -
  from run_frameNums [OF assms]
  have 1: "frameNums (run es w) = frameNums w @ [count w ..< count (run es w)]"
    by simp
  then have "drop (length (frameNums w)) (frameNums (run es w)) = [count w ..< count (run es w)]"
    by simp
  then have 2: "sorted_wrt (<) (drop (length (frameNums w)) (frameNums (run es w)))"
    by simp
  have 3: "name w \<noteq> None \<and> take (length EXPECTED_HEADER) u = EXPECTED_HEADER \<longrightarrow>
              frameNums (step (Message (Frame u)) w) = frameNums w @ [count w]"
    by (simp add: handleFrame_def Let_def frameNums_def)
  from 1 2 3 show ?thesis by blast
qed

theorem frame_indices_consecutive_witness:
  "sameSession threeFrames capturing \<and> frameNums (run threeFrames capturing) = [0, 1, 2]"
proof -
  have h: "sameSession threeFrames capturing"
    by code_simp
  have "count capturing = 0" "frameNums capturing = []" "count (run threeFrames capturing) = 3"
    by code_simp+
  with frame_indices_consecutive [OF h] have "frameNums (run threeFrames capturing) = [0 ..< 3]"
    by simp
  also have "[0 ..< 3] = [0, 1, 2::nat]"
    by code_simp
  finally show ?thesis using h by blast
qed

section \<open>Messages out of turn\<close>

text \<open>
  Claim C8, as the code has it: a \<open>start\<close> that arrives while the session has its
  name (from the \<open>start\<close> that named it until a pipeline failure clears the name,
  so while capturing, ending and assembling) leaves the name, the frame counter, the
  frame rate, the extension, the codec and the \<open>ended\<close> flag as they were; and
  when the client takes the answer, the error \<open>video already in progress\<close>,
  nothing but the client's inbox has changed: the frame list too is as it was.
\<close>

theorem start_in_progress_rejected:
  assumes "name w \<noteq> None"
  shows "name (step (Message (Start d)) w) = name w
         \<and> count (step (Message (Start d)) w) = count w
         \<and> framerate (step (Message (Start d)) w) = framerate w
         \<and> extension (step (Message (Start d)) w) = extension w
         \<and> codec (step (Message (Start d)) w) = codec w
         \<and> ended (step (Message (Start d)) w) = ended w
         \<and> (\<not> sendThrows w \<longrightarrow>
              frames (step (Message (Start d)) w) = frames w
              \<and> step (Message (Start d)) w
                  = w\<lparr>outbox := outbox w @ [CmdErrorText (js ''video already in progress'')]\<rparr>)"
proof -
  from assms have 1: "step (Message (Start d)) w
      = sendCmd (CmdErrorText (js ''video already in progress'')) w"
    by (simp add: handleStart_def)
  have 2: "\<not> sendThrows w \<longrightarrow>
      sendCmd (CmdErrorText (js ''video already in progress'')) w
        = w\<lparr>outbox := outbox w @ [CmdErrorText (js ''video already in progress'')]\<rparr>"
    by (simp add: sendCmd_def)
  from 2 show ?thesis
    unfolding 1 by auto
qed

theorem start_in_progress_rejected_witness:
  "name assembling \<noteq> None \<and> \<not> sendThrows assembling \<and> ended assembling
   \<and> encodes assembling = 1
   \<and> step (Message (Start (Some (no_data\<lparr>d_framerate := Some 60\<rparr>)))) assembling
       = assembling\<lparr>outbox := [CmdStart, CmdErrorText (js ''video already in progress'')]\<rparr>"
proof -
  have h: "name assembling \<noteq> None"
    and t: "\<not> sendThrows assembling"
    by code_simp+
  have o: "outbox assembling = [CmdStart]" "ended assembling" "encodes assembling = 1"
    by code_simp+
  from start_in_progress_rejected [OF h, of "Some (no_data\<lparr>d_framerate := Some 60\<rparr>)"] h t o
  show ?thesis by simp
qed

text \<open>
  When \<open>client.send\<close> throws, \<open>send\<close> catches and disconnects: the rejected
  \<open>start\<close> of a session in progress then delivers no error event, and the
  \<open>cleanup\<close> of the disconnect deletes the frames and empties the frame list.
\<close>

theorem start_on_broken_client_counterexample:
  "name brokenClient = Some (js ''untitled-1'')
   \<and> frames brokenClient = [js ''/tmp/untitled-1-0.png'']
   \<and> files brokenClient = {js ''/tmp/untitled-1-0.png''}
   \<and> outbox brokenClient = [CmdStart, CmdFrame 0]
   \<and> frames (step (Message (Start None)) brokenClient) = []
   \<and> files (step (Message (Start None)) brokenClient) = {}
   \<and> outbox (step (Message (Start None)) brokenClient) = [CmdStart, CmdFrame 0]
   \<and> \<not> connected (step (Message (Start None)) brokenClient)"
  by code_simp

text \<open>
  Claim C7, as the code has it: \<open>handleFrame\<close> looks at the name only. While the
  session has its name, a frame with the expected header is handed to persistence,
  whether or not \<open>end\<close> has been received and whether or not the pipeline runs;
  without a name the client gets the error \<open>video not started\<close> and nothing else
  changes.
\<close>

theorem frame_accepted_while_named:
  "(name w \<noteq> None \<and> take (length EXPECTED_HEADER) u = EXPECTED_HEADER \<longrightarrow>
      step (Message (Frame u)) w
        = w\<lparr>count := count w + 1,
             numWriting := numWriting w + 1,
             writes := writes w @
               [(path_join (frameDir (opts w))
                   (nameStr (name w) @ js ''-'' @ digits (count w) @ js ''.png''),
                 count w, Pending)]\<rparr>)
   \<and> (name w = None \<and> \<not> sendThrows w \<longrightarrow>
      step (Message (Frame u)) w
        = w\<lparr>outbox := outbox w @ [CmdErrorText (js ''video not started'')]\<rparr>)"
  by (simp add: handleFrame_def sendCmd_def Let_def)

theorem frame_accepted_while_named_witness:
  "name capturing \<noteq> None \<and> take (length EXPECTED_HEADER) pngFrame = EXPECTED_HEADER
   \<and> writes (step (Message (Frame pngFrame)) capturing)
       = [(js ''/tmp/untitled-1-0.png'', 0, Pending)]
   \<and> name exampleEncoder = None \<and> \<not> sendThrows exampleEncoder
   \<and> outbox (step (Message (Frame pngFrame)) exampleEncoder)
       = [CmdStart, CmdErrorText (js ''video not started'')]"
proof -
  have h1: "name capturing \<noteq> None \<and> take (length EXPECTED_HEADER) pngFrame = EXPECTED_HEADER"
    by code_simp
  have h2: "name exampleEncoder = None \<and> \<not> sendThrows exampleEncoder"
    by code_simp
  have v: "writes capturing = []" "frameDir (opts capturing) = js ''/tmp''"
    "nameStr (name capturing) = js ''untitled-1''" "count capturing = 0"
    "outbox exampleEncoder = [CmdStart]"
    by code_simp+
  have d: "path_join (js ''/tmp'') (js ''untitled-1'' @ js ''-'' @ digits 0 @ js ''.png'')
             = js ''/tmp/untitled-1-0.png''"
    by code_simp
  from frame_accepted_while_named [of capturing pngFrame] h1
  have "writes (step (Message (Frame pngFrame)) capturing)
          = [(js ''/tmp/untitled-1-0.png'', 0, Pending)]"
    by (simp add: v d)
  moreover from frame_accepted_while_named [of exampleEncoder pngFrame] h2
  have "outbox (step (Message (Frame pngFrame)) exampleEncoder)
          = [CmdStart, CmdErrorText (js ''video not started'')]"
    by (simp add: v)
  ultimately show ?thesis using h1 h2 by blast
qed

text \<open>
  A frame that arrives while the first stage runs is accepted without an error
  event, and its completion starts a second pipeline.
\<close>

theorem frame_while_assembling_counterexample:
  "ended assembling \<and> stages assembling = [1] \<and> map snd (procs assembling) = [True]
   \<and> outbox (step (Message (Frame pngFrame)) assembling) = outbox assembling
   \<and> count (step (Message (Frame pngFrame)) assembling) = count assembling + 1
   \<and> numWriting (step (Message (Frame pngFrame)) assembling) = 1
   \<and> stages (run [Message (Frame pngFrame), WriteDone 0 False] assembling) = [1, 1]"
  by code_simp

section \<open>The stages of the pipeline\<close>

lemma stages_simps [simp]:
  "stages (sendCmd m w) = stages w"
  "stages (cleanup w) = stages w"
  "stages (disconnect w) = stages w"
  "stages (deleteNoFail p w) = stages w"
  "stages (spawn q w) = stages w @ [stageOf q]"
  by (simp_all add: stages_def)

lemma stages_exited [simp]: "k < length (procs w) \<Longrightarrow> stages (exited k w) = stages w"
  by (simp add: stages_def map_update list_update_same_conv)

lemma runner_error_aborts:
  assumes "k < length (procs w)" and "procs w ! k = (p, True)"
    and "stageOf p = 1 \<or> stageOf p = 4" and "\<not> sendThrows w"
  shows "outbox (step (RunnerError k r) w) = outbox w @ [CmdErrorResult r]
         \<and> stages (step (RunnerError k r) w) = stages w
         \<and> name (step (RunnerError k r) w) = None"
  using assms
  by (cases p) (simp_all add: runnerError_def handleFFMpegError_def stageOf_def sendCmd_def
      cleanup_eq stages_def exited_def map_update list_update_same_conv)

text \<open>
  Claim C4, as the code has it: the remux is started whenever the first stage is
  done, and the audio mux whenever the remux process closes, whatever its exit code
  and whether or not a timestamp file or an audio track was supplied. No stage is
  skipped, and the raw video is never passed through.
\<close>

theorem remux_and_mux_always_run:
  "(k < length (procs w) \<and> procs w ! k = (Encode v a, True) \<longrightarrow>
      stages (step (RunnerDone k) w) = stages w @ [2]
      \<and> last (procs (step (RunnerDone k) w))
        = (Remux [S (js ''-o''),
                  S (path_join (frameDir (opts w)) (js ''vfr-'' @ nameStr (name w) @ js ''.mp4'')),
                  S (js ''-t''),
                  S (path_join (frameDir (opts w)) (js ''ts-'' @ nameStr (name w) @ js ''.txt'')),
                  S v], True))
   \<and> (k < length (procs w) \<and> procs w ! k = (Remux a, True) \<longrightarrow>
      stages (step (SpawnClose k c) w) = stages w @ [3]
      \<and> last (procs (step (SpawnClose k c) w))
        = (Mux [S (js ''-y''),
                S (js ''-i''),
                S (path_join (frameDir (opts w)) (js ''vfr-'' @ nameStr (name w) @ js ''.mp4'')),
                S (js ''-i''),
                S (path_join (frameDir (opts w)) (nameStr (name w) @ js ''.mp3'')),
                S (js ''-map''), S (js ''0:v''),
                S (js ''-map''), S (js ''1:a''),
                S (js ''-shortest''),
                S (path_join (frameDir (opts w)) (js ''cfr-'' @ nameStr (name w) @ js ''.mp4''))],
           True))"
  by (simp add: runnerDone_def createVfrVideo_def spawnClose_def createCfrVideo_def Let_def
      stageOf_def)

theorem remux_and_mux_always_run_witness:
  "0 < length (procs assembling)
   \<and> procs assembling ! 0
     = (Encode (js ''videos/untitled-1.mp4'')
         [S (js ''-framerate''), N 30, S (js ''-pattern_type''), S (js ''sequence''),
          S (js ''-start_number''), S (js ''0''), S (js ''-i''),
          S (js ''/tmp/untitled-1-%d.png''), S (js ''-y''), S (js ''-c:v''),
          S (js ''libx264''), S (js ''-pix_fmt''), S (js ''yuv420p''),
          S (js ''videos/untitled-1.mp4'')], True)
   \<and> stages (step (RunnerDone 0) assembling) = [1, 2]
   \<and> 1 < length (procs remuxing)
   \<and> procs remuxing ! 1
     = (Remux [S (js ''-o''), S (js ''/tmp/vfr-untitled-1.mp4''), S (js ''-t''),
               S (js ''/tmp/ts-untitled-1.txt''), S (js ''videos/untitled-1.mp4'')], True)
   \<and> stages (step (SpawnClose 1 0) remuxing) = [1, 2, 3]"
proof -
  have h1: "0 < length (procs assembling)
   \<and> procs assembling ! 0
     = (Encode (js ''videos/untitled-1.mp4'')
         [S (js ''-framerate''), N 30, S (js ''-pattern_type''), S (js ''sequence''),
          S (js ''-start_number''), S (js ''0''), S (js ''-i''),
          S (js ''/tmp/untitled-1-%d.png''), S (js ''-y''), S (js ''-c:v''),
          S (js ''libx264''), S (js ''-pix_fmt''), S (js ''yuv420p''),
          S (js ''videos/untitled-1.mp4'')], True)"
    by code_simp
  have h2: "1 < length (procs remuxing)
   \<and> procs remuxing ! 1
     = (Remux [S (js ''-o''), S (js ''/tmp/vfr-untitled-1.mp4''), S (js ''-t''),
               S (js ''/tmp/ts-untitled-1.txt''), S (js ''videos/untitled-1.mp4'')], True)"
    by code_simp
  have s: "stages assembling = [1]" "stages remuxing = [1, 2]"
    by code_simp+
  from remux_and_mux_always_run [of 0 assembling] h1 s
  have 1: "stages (step (RunnerDone 0) assembling) = [1, 2]"
    by simp
  from remux_and_mux_always_run [of 1 remuxing] h2 s
  have 2: "stages (step (SpawnClose 1 0) remuxing) = [1, 2, 3]"
    by simp
  from h1 h2 1 2 show ?thesis by blast
qed

text \<open>
  A session without timestamps and without audio: both stages are started.
\<close>

theorem stages_without_inputs_counterexample:
  "auxWrites (run noTimestampsNoAudio exampleEncoder) = []
   \<and> files (run noTimestampsNoAudio exampleEncoder) = {js ''/tmp/untitled-1-0.png''}
   \<and> stages (run noTimestampsNoAudio exampleEncoder) = [1, 2, 3]"
  by code_simp

text \<open>
  Claim C2 at a failing remux: \<open>mp4fpsmod\<close> closes with exit code 1, the audio mux
  is started all the same, and the client gets no error event.
\<close>

theorem remux_failure_ignored:
  "stages (run remuxFails exampleEncoder) = [1, 2, 3]
   \<and> map snd (procs (run remuxFails exampleEncoder)) = [False, False, True]
   \<and> outbox (run remuxFails exampleEncoder) = [CmdStart, CmdFrame 0]
   \<and> name (run remuxFails exampleEncoder) = Some (js ''untitled-1'')"
  by code_simp

section \<open>Cleanup after a failure\<close>

lemma cleanup_removes:
  "p \<in> cleanupPaths w \<Longrightarrow> p \<notin> files (cleanup w)"
  "\<not> keepFrames (opts w) \<Longrightarrow> f \<in> set (frames w) \<Longrightarrow> f \<notin> files (cleanup w)"
  by (simp_all add: cleanup_eq)

text \<open>
  Claim C3 at a failing first stage, with the frame directory \<open>/tmp\<close> and the
  video directory \<open>videos\<close>: after the error event and \<open>cleanup\<close>, the timestamp
  file and the audio track, written to the frame directory, are still there
  (\<open>cleanup\<close> looks for them in the video directory).
\<close>

theorem intermediates_left_after_failure:
  "videoDir exampleOptions = js ''videos'' \<and> frameDir exampleOptions = js ''/tmp''
   \<and> outbox (run encodeFails exampleEncoder) = [CmdStart, CmdErrorResult (js ''exit 1'')]
   \<and> name (run encodeFails exampleEncoder) = None
   \<and> files (run encodeFails exampleEncoder) = {js ''/tmp/ts-a-1.txt'', js ''/tmp/a-1.mp3''}"
  by code_simp

section \<open>Progress\<close>

lemma progress_in_unit_interval:
  "frames w \<noteq> [] \<Longrightarrow> n \<le> length (frames w) \<Longrightarrow>
   in_unit_interval (js_div n (length (frames w)))"
  by (simp add: js_div_def)

text \<open>
  Claim C9 at an empty frame list: after a disconnect during the first stage
  \<open>cleanup\<close> has emptied the list, and the next progress is \<open>1 / 0\<close>, which is
  \<open>Infinity\<close>; in a session without frames the progress of frame 0 is \<open>0 / 0\<close>,
  which is \<open>NaN\<close>. Neither is in the unit interval.
\<close>

theorem progress_outside_unit_interval:
  "frames (run (butlast disconnectWhileEncoding) exampleEncoder) = []
   \<and> last (outbox (run disconnectWhileEncoding exampleEncoder)) = CmdProgress Infinity
   \<and> \<not> in_unit_interval Infinity
   \<and> last (outbox (run [Message (Start None), Message End, RunnerFrame 0 0] exampleEncoder))
       = CmdProgress NaN
   \<and> \<not> in_unit_interval NaN"
  by code_simp

section \<open>Disconnect\<close>

lemma indexOf_member:
  "x \<in> set xs \<Longrightarrow>
   \<exists>n. indexOf xs x = int n \<and> n < length xs \<and> take n xs @ drop (Suc n) xs = remove1 x xs"
proof (induction xs)
  case Nil
  then show ?case by simp
next
  case (Cons y ys)
  show ?case
  proof (cases "y = x")
    case True
    then show ?thesis by simp
  next
    case False
    with Cons.prems have "x \<in> set ys" by simp
    from Cons.IH [OF this] obtain n where
      n: "indexOf ys x = int n" "n < length ys" "take n ys @ drop (Suc n) ys = remove1 x ys"
      by blast
    from False n have "indexOf (y # ys) x = int (Suc n)"
      by (simp add: Let_def)
    moreover from False n have "take (Suc n) (y # ys) @ drop (Suc (Suc n)) (y # ys) = remove1 x (y # ys)"
      by simp
    moreover from n have "Suc n < length (y # ys)" by simp
    ultimately show ?thesis by blast
  qed
qed

lemma splice1_indexOf:
  "x \<in> set xs \<Longrightarrow> splice1 (indexOf xs x) xs = remove1 x xs"
proof -
  assume "x \<in> set xs"
  from indexOf_member [OF this] obtain n where
    n: "indexOf xs x = int n" "n < length xs" "take n xs @ drop (Suc n) xs = remove1 x xs"
    by blast
  then show ?thesis by (simp add: splice1_def Let_def min_def)
qed

lemma discards_refl: "\<not> connected v \<Longrightarrow> discards v v"
  by (auto simp: discards_def isPending_def)

lemma discards_trans:
  assumes "discards u v" and "discards v w"
  shows "discards u w"
  unfolding discards_def
proof (intro conjI allI impI)
  fix j
  assume j: "j < length (writes u)"
  with assms have jv: "j < length (writes v)" by (simp add: discards_def)
  from assms j jv show "fst (writes w ! j) = fst (writes u ! j)"
    by (simp add: discards_def)
  {
    assume "\<not> isPending (writes u ! j)"
    with assms j jv show "snd (snd (writes w ! j)) = snd (snd (writes u ! j))"
      by (auto simp: discards_def isPending_def)
  }
  {
    assume p: "isPending (writes u ! j) \<and> snd (snd (writes w ! j)) = Written"
    show "fst (writes u ! j) \<notin> files w"
    proof (cases "isPending (writes v ! j)")
      case True
      with assms j jv p show ?thesis
        by (simp add: discards_def)
    next
      case False
      with assms(2) jv p have "snd (snd (writes v ! j)) = Written"
        by (simp add: discards_def)
      with assms(1) j p have "fst (writes u ! j) \<notin> files v"
        by (simp add: discards_def)
      moreover from assms(2) have "files w \<subseteq> files v"
        by (simp add: discards_def)
      ultimately show ?thesis by blast
    qed
  }
qed (use assms in \<open>auto simp: discards_def\<close>)

lemma step_discards:
  assumes "\<not> connected v"
  shows "discards v (step (WriteDone k err) v)"
proof (cases "k < length (writes v) \<and> isPending (writes v ! k)")
  case False
  with assms show ?thesis
    by (auto simp: writeDone_def isPending_def discards_def split: prod.splits wstatus.splits)
next
  case True
  then obtain f n where k: "k < length (writes v)" "writes v ! k = (f, n, Pending)"
    by (cases "writes v ! k") (auto simp: isPending_def)
  show ?thesis
  proof (cases err)
    case True
    with assms k show ?thesis
      by (auto simp: writeDone_def frameWritten_def Let_def discards_def isPending_def
          nth_list_update)
  next
    case False
    with assms k show ?thesis
      by (auto simp: writeDone_def frameWritten_def Let_def discards_def isPending_def
          nth_list_update deleteNoFail_def)
  qed
qed

lemma run_discards:
  "\<not> connected v \<Longrightarrow> \<forall>e \<in> set es. isWriteDone e \<Longrightarrow> discards v (run es v)"
proof (induction es arbitrary: v)
  case Nil
  then show ?case by (simp add: run_def discards_refl)
next
  case (Cons e es)
  from Cons.prems obtain k err where e: "e = WriteDone k err"
    by (cases e) (auto simp: isWriteDone_def)
  have 1: "discards v (step e v)"
    unfolding e using Cons.prems(1) by (rule step_discards)
  then have "\<not> connected (step e v)"
    by (simp add: discards_def)
  from Cons.IH [OF this] Cons.prems have 2: "discards (step e v) (run es (step e v))"
    by simp
  from discards_trans [OF 1 2] show ?case
    by (simp add: run_def)
qed

text \<open>
  Claim C10: after a disconnect, whatever the order and the outcome of the
  completions of the frame writes, no frame is added to the frame list and nothing
  is sent to the client; the file of every write that was in flight and has
  succeeded is deleted; and the session is removed from the registry once, by the
  disconnect itself (one occurrence, the registry otherwise as it was), the
  completions leaving the registry alone.
\<close>

theorem disconnect_discards_pending_writes:
  assumes "\<forall>e \<in> set es. isWriteDone e"
  shows "\<not> connected (run es (step ClientDisconnect w))
    \<and> frames (run es (step ClientDisconnect w)) = frames (step ClientDisconnect w)
    \<and> outbox (run es (step ClientDisconnect w)) = outbox w
    \<and> (\<forall>j < length (writes w).
         isPending (writes w ! j)
         \<and> snd (snd (writes (run es (step ClientDisconnect w)) ! j)) = Written
         \<longrightarrow> fst (writes w ! j) \<notin> files (run es (step ClientDisconnect w)))
    \<and> encoders (run es (step ClientDisconnect w)) = encoders (step ClientDisconnect w)
    \<and> (self w \<in> set (encoders w) \<longrightarrow>
         encoders (step ClientDisconnect w) = remove1 (self w) (encoders w))"
proof -
  have c: "\<not> connected (step ClientDisconnect w)"
    by (simp add: disconnect_eq)
  from run_discards [OF c assms]
  have d: "discards (step ClientDisconnect w) (run es (step ClientDisconnect w))" .
  have w: "writes (step ClientDisconnect w) = writes w" "outbox (step ClientDisconnect w) = outbox w"
    by simp_all
  have "self w \<in> set (encoders w) \<longrightarrow>
         encoders (step ClientDisconnect w) = remove1 (self w) (encoders w)"
    by (simp add: disconnect_eq splice1_indexOf)
  with d w show ?thesis
    by (simp add: discards_def)
qed

theorem disconnect_discards_pending_writes_witness:
  "encoders twoPending = [3, 5, 7] \<and> pendingWrites twoPending = 2
   \<and> frames (run [WriteDone 1 False, WriteDone 0 False] (step ClientDisconnect twoPending)) = []
   \<and> outbox (run [WriteDone 1 False, WriteDone 0 False] (step ClientDisconnect twoPending))
       = [CmdStart]
   \<and> files (run [WriteDone 1 False, WriteDone 0 False] (step ClientDisconnect twoPending)) = {}
   \<and> encoders (run [WriteDone 1 False, WriteDone 0 False] (step ClientDisconnect twoPending))
       = [3, 5]"
proof -
  have h: "\<forall>e \<in> set [WriteDone 1 False, WriteDone 0 False]. isWriteDone e"
    by (simp add: isWriteDone_def)
  have v: "encoders twoPending = [3, 5, 7]" "pendingWrites twoPending = 2"
    "self twoPending = 7" "outbox twoPending = [CmdStart]"
    "frames (step ClientDisconnect twoPending) = []"
    "files (run [WriteDone 1 False, WriteDone 0 False] (step ClientDisconnect twoPending)) = {}"
    by code_simp+
  from disconnect_discards_pending_writes [OF h, of twoPending] v
  have "frames (run [WriteDone 1 False, WriteDone 0 False] (step ClientDisconnect twoPending)) = []
    \<and> outbox (run [WriteDone 1 False, WriteDone 0 False] (step ClientDisconnect twoPending))
       = [CmdStart]
    \<and> encoders (run [WriteDone 1 False, WriteDone 0 False] (step ClientDisconnect twoPending))
       = [3, 5]"
    by simp
  with v show ?thesis by blast
qed

end
